theory Spec2Isabelle
  imports Main "HOL-Library.Word"
begin

section \<open>Exit codes and categories (cli.go)\<close>

text \<open>
  \<^verbatim>\<open>type ExitCode int\<close>: a Go \<open>int\<close>, taken at its 64-bit width and read as two's
  complement with \<open>sint\<close>; Go's \<open><=\<close> and \<open>>=\<close> on it are the signed comparisons.
  \<^verbatim>\<open>type Category string\<close> is a string.
\<close>

type_synonym go_int = "64 word"
type_synonym ExitCode = go_int
type_synonym Category = string

definition CategorySuccess :: Category where "CategorySuccess = ''success''"
definition CategoryGeneral :: Category where "CategoryGeneral = ''general''"
definition CategoryUserError :: Category where "CategoryUserError = ''user_error''"
definition CategoryCLIExtended :: Category where "CategoryCLIExtended = ''cli_extended''"
definition CategorySystemSignal :: Category where "CategorySystemSignal = ''system_signal''"
definition CategoryUnknown :: Category where "CategoryUnknown = ''unknown''"

lemmas Category_defs =
  CategorySuccess_def CategoryGeneral_def CategoryUserError_def
  CategoryCLIExtended_def CategorySystemSignal_def CategoryUnknown_def

definition ExitCodeSuccess :: ExitCode where "ExitCodeSuccess = 0"
definition ExitCodeErrorInternal :: ExitCode where "ExitCodeErrorInternal = 1"
definition ExitCodeError :: ExitCode where "ExitCodeError = 1"
definition ExitCodeInvalidArgument :: ExitCode where "ExitCodeInvalidArgument = 2"
definition ExitCodeUsageError :: ExitCode where "ExitCodeUsageError = 2"
definition ExitCodeCmdUsage :: ExitCode where "ExitCodeCmdUsage = 64"
definition ExitCodeDataError :: ExitCode where "ExitCodeDataError = 65"
definition ExitCodeNoInput :: ExitCode where "ExitCodeNoInput = 66"
definition ExitCodeNoUser :: ExitCode where "ExitCodeNoUser = 67"
definition ExitCodeNoHost :: ExitCode where "ExitCodeNoHost = 68"
definition ExitCodeUnavailable :: ExitCode where "ExitCodeUnavailable = 69"
definition ExitCodeSoftware :: ExitCode where "ExitCodeSoftware = 70"
definition ExitCodeOSError :: ExitCode where "ExitCodeOSError = 71"
definition ExitCodeOSFile :: ExitCode where "ExitCodeOSFile = 72"
definition ExitCodeCantCreate :: ExitCode where "ExitCodeCantCreate = 73"
definition ExitCodeIOError :: ExitCode where "ExitCodeIOError = 74"
definition ExitCodeTempFail :: ExitCode where "ExitCodeTempFail = 75"
definition ExitCodeProtocol :: ExitCode where "ExitCodeProtocol = 76"
definition ExitCodeNoPermission :: ExitCode where "ExitCodeNoPermission = 77"
definition ExitCodeConfig :: ExitCode where "ExitCodeConfig = 78"
definition ExitCodeAuthRequired :: ExitCode where "ExitCodeAuthRequired = 80"
definition ExitCodeAuthFailed :: ExitCode where "ExitCodeAuthFailed = 81"
definition ExitCodeForbidden :: ExitCode where "ExitCodeForbidden = 82"
definition ExitCodeNotFound :: ExitCode where "ExitCodeNotFound = 83"
definition ExitCodeConflict :: ExitCode where "ExitCodeConflict = 84"
definition ExitCodeValidation :: ExitCode where "ExitCodeValidation = 85"
definition ExitCodeRateLimit :: ExitCode where "ExitCodeRateLimit = 86"
definition ExitCodeQuotaExceeded :: ExitCode where "ExitCodeQuotaExceeded = 87"
definition ExitCodeInterrupted :: ExitCode where "ExitCodeInterrupted = 130"
definition ExitCodeTerminated :: ExitCode where "ExitCodeTerminated = 143"

lemmas ExitCode_defs =
  ExitCodeSuccess_def ExitCodeErrorInternal_def ExitCodeError_def
  ExitCodeInvalidArgument_def ExitCodeUsageError_def ExitCodeCmdUsage_def
  ExitCodeDataError_def ExitCodeNoInput_def ExitCodeNoUser_def ExitCodeNoHost_def
  ExitCodeUnavailable_def ExitCodeSoftware_def ExitCodeOSError_def ExitCodeOSFile_def
  ExitCodeCantCreate_def ExitCodeIOError_def ExitCodeTempFail_def ExitCodeProtocol_def
  ExitCodeNoPermission_def ExitCodeConfig_def ExitCodeAuthRequired_def
  ExitCodeAuthFailed_def ExitCodeForbidden_def ExitCodeNotFound_def ExitCodeConflict_def
  ExitCodeValidation_def ExitCodeRateLimit_def ExitCodeQuotaExceeded_def
  ExitCodeInterrupted_def ExitCodeTerminated_def

text \<open>\<^verbatim>\<open>func (c ExitCode) Category() Category\<close>: the switch, case by case, in its order.\<close>

definition Category :: "ExitCode \<Rightarrow> Category" where
  "Category c =
     (if c = 0 then CategorySuccess
      else if 1 \<le>s c \<and> c \<le>s 63 then CategoryGeneral
      else if 64 \<le>s c \<and> c \<le>s 79 then CategoryUserError
      else if 80 \<le>s c \<and> c \<le>s 99 then CategoryCLIExtended
      else if 128 \<le>s c then CategorySystemSignal
      else CategoryUnknown)"

text \<open>\<^verbatim>\<open>func (c ExitCode) IsRetriable() bool\<close>\<close>

definition IsRetriable :: "ExitCode \<Rightarrow> bool" where
  "IsRetriable c =
     (if c = ExitCodeTempFail \<or> c = ExitCodeUnavailable \<or> c = ExitCodeIOError
         \<or> c = ExitCodeRateLimit
      then True else False)"

text \<open>\<^verbatim>\<open>func (c ExitCode) IsUserError() bool\<close>\<close>

definition IsUserError :: "ExitCode \<Rightarrow> bool" where
  "IsUserError c =
     (if c = ExitCodeInvalidArgument \<or> c = ExitCodeCmdUsage \<or> c = ExitCodeDataError
         \<or> c = ExitCodeNoInput \<or> c = ExitCodeNoUser \<or> c = ExitCodeNoHost
         \<or> c = ExitCodeNoPermission \<or> c = ExitCodeConfig \<or> c = ExitCodeNotFound
         \<or> c = ExitCodeValidation
      then True else False)"

section \<open>HTTP status mapping (cli.go)\<close>

text \<open>\<^verbatim>\<open>func FromHTTPStatus(status int) ExitCode\<close>\<close>

definition FromHTTPStatus :: "go_int \<Rightarrow> ExitCode" where
  "FromHTTPStatus status =
     (if status = 200 \<or> status = 201 \<or> status = 202 \<or> status = 204 then ExitCodeSuccess
      else if status = 400 then ExitCodeDataError
      else if status = 401 then ExitCodeAuthFailed
      else if status = 403 then ExitCodeForbidden
      else if status = 404 then ExitCodeNotFound
      else if status = 409 then ExitCodeConflict
      else if status = 412 \<or> status = 422 then ExitCodeValidation
      else if status = 423 then ExitCodeForbidden
      else if status = 429 then ExitCodeRateLimit
      else if status = 500 then ExitCodeSoftware
      else if status = 501 \<or> status = 502 \<or> status = 503 \<or> status = 504
        then ExitCodeUnavailable
      else if 200 \<le>s status \<and> status <s 300 then ExitCodeSuccess
      else if 400 \<le>s status \<and> status <s 500 then ExitCodeDataError
      else if 500 \<le>s status then ExitCodeUnavailable
      else ExitCodeErrorInternal)"

text \<open>\<^verbatim>\<open>func ToHTTPStatus(code ExitCode) int\<close>\<close>

definition ToHTTPStatus :: "ExitCode \<Rightarrow> go_int" where
  "ToHTTPStatus code =
     (if code = ExitCodeSuccess then 200
      else if code = ExitCodeInvalidArgument \<or> code = ExitCodeCmdUsage
           \<or> code = ExitCodeDataError \<or> code = ExitCodeValidation then 400
      else if code = ExitCodeAuthRequired \<or> code = ExitCodeAuthFailed then 401
      else if code = ExitCodeForbidden \<or> code = ExitCodeNoPermission then 403
      else if code = ExitCodeNotFound \<or> code = ExitCodeNoInput then 404
      else if code = ExitCodeConflict then 409
      else if code = ExitCodeRateLimit \<or> code = ExitCodeQuotaExceeded then 429
      else if code = ExitCodeUnavailable \<or> code = ExitCodeTempFail then 503
      else if code = ExitCodeSoftware \<or> code = ExitCodeOSError \<or> code = ExitCodeIOError
           \<or> code = ExitCodeErrorInternal then 500
      else 500)"

text \<open>
  The codes that the switch of \<open>ToHTTPStatus\<close> names in a case of its own: the codes
  with a designated status. Every other code takes the default branch.
\<close>

definition designated :: "ExitCode list" where
  "designated =
     [ExitCodeSuccess, ExitCodeInvalidArgument, ExitCodeCmdUsage, ExitCodeDataError,
      ExitCodeValidation, ExitCodeAuthRequired, ExitCodeAuthFailed, ExitCodeForbidden,
      ExitCodeNoPermission, ExitCodeNotFound, ExitCodeNoInput, ExitCodeConflict,
      ExitCodeRateLimit, ExitCodeQuotaExceeded, ExitCodeUnavailable, ExitCodeTempFail,
      ExitCodeSoftware, ExitCodeOSError, ExitCodeIOError, ExitCodeErrorInternal]"

section \<open>Text form of a code (cli.go, with strconv and strings)\<close>

text \<open>
  \<open>strconv.Itoa\<close>: the decimal digits of a Go \<open>int\<close>, most significant first, with a
  leading minus sign for a negative value. \<open>utoa\<close> renders a natural number.
\<close>

definition digit_char :: "nat \<Rightarrow> char" where
  "digit_char d = char_of (48 + d)"

fun utoa :: "nat \<Rightarrow> string" where
  "utoa n = (if n < 10 then [digit_char n] else utoa (n div 10) @ [digit_char (n mod 10)])"

declare utoa.simps [simp del]

definition Itoa :: "go_int \<Rightarrow> string" where
  "Itoa i = (if i <s 0 then CHR ''-'' # utoa (nat (- sint i)) else utoa (nat (sint i)))"

text \<open>
  \<open>strconv.Atoi\<close>: an optional sign, then one or more ASCII digits and nothing else
  (base 10, no underscores); the value must fit the 64-bit \<open>int\<close>. \<open>None\<close> stands for
  the \<open>*strconv.NumError\<close> it returns otherwise (syntax or range).
\<close>

definition is_digit :: "char \<Rightarrow> bool" where
  "is_digit c = (48 \<le> (of_char c :: nat) \<and> (of_char c :: nat) \<le> 57)"

definition digits_value :: "string \<Rightarrow> nat" where
  "digits_value s = foldl (\<lambda>n c. n * 10 + (of_char c - 48)) 0 s"

definition Atoi :: "string \<Rightarrow> go_int option" where
  "Atoi s =
     (let neg = (s \<noteq> [] \<and> hd s = CHR ''-'');
          body = (if s \<noteq> [] \<and> (hd s = CHR ''-'' \<or> hd s = CHR ''+'') then tl s else s)
      in if body = [] \<or> \<not> list_all is_digit body then None
         else let v = (if neg then - int (digits_value body) else int (digits_value body))
              in if v < - (2 ^ 63) \<or> 2 ^ 63 \<le> v then None else Some (word_of_int v))"

text \<open>
  \<open>strings.TrimSpace\<close> removes the leading and the trailing white space, as
  \<open>unicode.IsSpace\<close> defines it, from the UTF-8 bytes of the text: the six ASCII bytes
  of \<open>asciiSpace\<close>, U+0085 and U+00A0 (two bytes each, \<open>space2\<close>), and U+1680,
  U+2000 to U+200A, U+2028, U+2029, U+202F, U+205F and U+3000 (three bytes each,
  \<open>space3\<close>). \<open>leading_space\<close> is the width in bytes of the white-space rune that the
  text starts with, \<open>trailing_space\<close> of the one it ends with; 0 when there is none.
\<close>

definition asciiSpace :: "char \<Rightarrow> bool" where
  "asciiSpace c = (c \<in> set [CHR 0x09, CHR 0x0A, CHR 0x0B, CHR 0x0C, CHR 0x0D, CHR 0x20])"

definition space2 :: "string list" where
  "space2 = [[CHR 0xC2, CHR 0x85], [CHR 0xC2, CHR 0xA0]]"

definition space3 :: "string list" where
  "space3 =
     [[CHR 0xE1, CHR 0x9A, CHR 0x80],
      [CHR 0xE2, CHR 0x80, CHR 0x80], [CHR 0xE2, CHR 0x80, CHR 0x81],
      [CHR 0xE2, CHR 0x80, CHR 0x82], [CHR 0xE2, CHR 0x80, CHR 0x83],
      [CHR 0xE2, CHR 0x80, CHR 0x84], [CHR 0xE2, CHR 0x80, CHR 0x85],
      [CHR 0xE2, CHR 0x80, CHR 0x86], [CHR 0xE2, CHR 0x80, CHR 0x87],
      [CHR 0xE2, CHR 0x80, CHR 0x88], [CHR 0xE2, CHR 0x80, CHR 0x89],
      [CHR 0xE2, CHR 0x80, CHR 0x8A],
      [CHR 0xE2, CHR 0x80, CHR 0xA8], [CHR 0xE2, CHR 0x80, CHR 0xA9],
      [CHR 0xE2, CHR 0x80, CHR 0xAF], [CHR 0xE2, CHR 0x81, CHR 0x9F],
      [CHR 0xE3, CHR 0x80, CHR 0x80]]"

definition leading_space :: "string \<Rightarrow> nat" where
  "leading_space s =
     (if s = [] then 0
      else if asciiSpace (hd s) then 1
      else if take 2 s \<in> set space2 then 2
      else if take 3 s \<in> set space3 then 3
      else 0)"

definition trailing_space :: "string \<Rightarrow> nat" where
  "trailing_space s =
     (let r = rev s in
      if r = [] then 0
      else if asciiSpace (hd r) then 1
      else if rev (take 2 r) \<in> set space2 then 2
      else if rev (take 3 r) \<in> set space3 then 3
      else 0)"

lemma leading_space_shorter:
  "0 < leading_space s \<Longrightarrow> length s - leading_space s < length s"
  by (cases s) (auto simp: leading_space_def)

lemma trailing_space_shorter:
  "0 < trailing_space s \<Longrightarrow> length s - trailing_space s < length s"
  by (cases s) (auto simp: trailing_space_def)

function TrimLeft :: "string \<Rightarrow> string" where
  "TrimLeft s = (if leading_space s = 0 then s else TrimLeft (drop (leading_space s) s))"
  by pat_completeness auto
termination
  by (relation "measure length") (auto intro: leading_space_shorter)

function TrimRight :: "string \<Rightarrow> string" where
  "TrimRight s =
     (if trailing_space s = 0 then s else TrimRight (take (length s - trailing_space s) s))"
  by pat_completeness auto
termination
  by (relation "measure length") (auto intro: trailing_space_shorter)

declare TrimLeft.simps [simp del] TrimRight.simps [simp del]

definition TrimSpace :: "string \<Rightarrow> string" where
  "TrimSpace s = TrimRight (TrimLeft s)"

text \<open>
  \<^verbatim>\<open>func (c ExitCode) MarshalText() ([]byte, error)\<close>: the digits, and a nil error.
\<close>

datatype text_error = InvalidExitCodeText string

definition MarshalText :: "ExitCode \<Rightarrow> string \<times> text_error option" where
  "MarshalText c = (Itoa c, None)"

text \<open>
  \<^verbatim>\<open>func (c *ExitCode) UnmarshalText(text []byte) error\<close>, with the code that \<open>c\<close>
  points to passed in and returned: the pair is the value of \<open>*c\<close> afterwards and the
  returned error. The error \<open>fmt.Errorf("invalid exit code text: %q", s)\<close> is the
  constructor \<open>InvalidExitCodeText\<close> applied to \<open>s\<close>.
\<close>

definition UnmarshalText :: "ExitCode \<Rightarrow> string \<Rightarrow> ExitCode \<times> text_error option" where
  "UnmarshalText c text =
     (let s = TrimSpace text in
      if s = [] then (ExitCodeSuccess, None)
      else case Atoi s of
             None \<Rightarrow> (c, Some (InvalidExitCodeText s))
           | Some n \<Rightarrow> (n, None))"

text \<open>
  \<^verbatim>\<open>func (c ExitCode) String() string\<close>: the switch over the named constants, and
  \<open>fmt.Sprintf("Unknown exit code: %d", int(c))\<close> in its default branch.
\<close>

definition ExitCode_String :: "ExitCode \<Rightarrow> string" where
  "ExitCode_String c =
     (if c = ExitCodeSuccess then ''Success''
      else if c = ExitCodeErrorInternal then ''Internal error''
      else if c = ExitCodeInvalidArgument then ''Invalid argument''
      else if c = ExitCodeCmdUsage then ''Command usage error''
      else if c = ExitCodeDataError then ''Data format error''
      else if c = ExitCodeNoInput then ''Input file not found''
      else if c = ExitCodeNoUser then ''User not found''
      else if c = ExitCodeNoHost then ''Host not found''
      else if c = ExitCodeUnavailable then ''Service unavailable''
      else if c = ExitCodeSoftware then ''Internal software error''
      else if c = ExitCodeOSError then ''Operating system error''
      else if c = ExitCodeOSFile then ''System file error''
      else if c = ExitCodeCantCreate then ''Cannot create output file''
      else if c = ExitCodeIOError then ''I/O error''
      else if c = ExitCodeTempFail then ''Temporary failure''
      else if c = ExitCodeProtocol then ''Protocol error''
      else if c = ExitCodeNoPermission then ''Permission denied''
      else if c = ExitCodeConfig then ''Configuration error''
      else if c = ExitCodeAuthRequired then ''Authentication required''
      else if c = ExitCodeAuthFailed then ''Authentication failed''
      else if c = ExitCodeForbidden then ''Forbidden''
      else if c = ExitCodeNotFound then ''Not found''
      else if c = ExitCodeConflict then ''Conflict''
      else if c = ExitCodeValidation then ''Validation error''
      else if c = ExitCodeRateLimit then ''Rate limit exceeded''
      else if c = ExitCodeQuotaExceeded then ''Quota exceeded''
      else if c = ExitCodeInterrupted then ''Interrupted by user''
      else if c = ExitCodeTerminated then ''Terminated by system''
      else ''Unknown exit code: '' @ Itoa c)"

section \<open>Error values (cli.go, with errors, context, os, net and fmt)\<close>

text \<open>
  A Go \<open>error\<close> is an interface value: \<open>error option\<close> here, \<open>None\<close> the nil
  interface, \<open>Some e\<close> a value \<open>e\<close> of some concrete type. The concrete types that
  the resolver tells apart are the constructors of \<open>error\<close>:
  \<^item> \<open>ExitErrorPtr p\<close>: a \<open>*ExitError\<close>, \<open>p = None\<close> the nil pointer (what
    \<open>WithCode\<close> returns for a nil error) and \<open>p = Some x\<close> a pointer to the struct \<open>x\<close>;
  \<^item> \<open>ErrInternal\<close> to \<open>ErrTempFail\<close>: the thirteen package-level variables of cli.go,
    each made by \<open>errors.New\<close> and compared by identity;
  \<^item> \<open>Canceled\<close>, \<open>DeadlineExceeded\<close>, \<open>ErrNotExist\<close>, \<open>ErrPermission\<close>:
    \<open>context.Canceled\<close>, \<open>context.DeadlineExceeded\<close>, \<open>os.ErrNotExist\<close> and
    \<open>os.ErrPermission\<close>;
  \<^item> \<open>ErrorString s\<close>: any other value made by \<open>errors.New(s)\<close>;
  \<^item> \<open>WrapError msg e\<close>: \<open>fmt.Errorf\<close> with one \<open>%w\<close> operand \<open>e\<close>, \<open>msg\<close> the
    formatted text;
  \<^item> \<open>PathError op path e\<close>: a \<open>*os.PathError\<close>;
  \<^item> \<open>NetError text timeout temporary\<close>: a value of a type with the methods of
    \<open>net.Error\<close> (such as \<open>dummyNetError\<close> in the tests), given by what \<open>Error()\<close>,
    \<open>Timeout()\<close> and \<open>Temporary()\<close> return;
  \<^item> \<open>JoinError e es\<close>: \<open>errors.Join\<close> of the non-nil errors \<open>e, es\<close> (Go 1.20 and
    later, where \<open>errors.Is\<close> and \<open>errors.As\<close> follow \<open>Unwrap() []error\<close>).
  A run-time panic is a value of \<open>panic\<close>, returned on the left of a sum.
\<close>

datatype panic = NilPointerDereference

definition bind_panic :: "panic + 'a \<Rightarrow> ('a \<Rightarrow> panic + 'b) \<Rightarrow> panic + 'b" where
  "bind_panic m k = (case m of Inl p \<Rightarrow> Inl p | Inr v \<Rightarrow> k v)"

datatype ExitError = ExitError (Code: ExitCode) (Message: string) (Cause: "error option")
and error =
    ExitErrorPtr "ExitError option"
  | ErrorString string
  | ErrInternal | ErrInvalid | ErrUsage | ErrDataFormat | ErrNotFound | ErrNoPermission
  | ErrConfig | ErrAuth | ErrForbidden | ErrValidation | ErrIO | ErrUnavailable | ErrTempFail
  | Canceled | DeadlineExceeded | ErrNotExist | ErrPermission
  | WrapError string error
  | PathError string string error
  | NetError string bool bool
  | JoinError error "error list"

text \<open>
  The method \<open>Error()\<close> of each type. \<^verbatim>\<open>func (e *ExitError) Error() string\<close> is
  \<open>ExitError_Error\<close>; on a nil receiver its first line reads \<open>e.Message\<close> through the
  nil pointer and panics.
\<close>

fun error_Error :: "error \<Rightarrow> panic + string"
  and ExitError_Error :: "ExitError \<Rightarrow> panic + string"
  and join_Error :: "error list \<Rightarrow> panic + string"
where
  "error_Error (ExitErrorPtr None) = Inl NilPointerDereference"
| "error_Error (ExitErrorPtr (Some x)) = ExitError_Error x"
| "error_Error (ErrorString s) = Inr s"
| "error_Error ErrInternal = Inr ''internal error''"
| "error_Error ErrInvalid = Inr ''invalid argument''"
| "error_Error ErrUsage = Inr ''usage error''"
| "error_Error ErrDataFormat = Inr ''data format error''"
| "error_Error ErrNotFound = Inr ''not found''"
| "error_Error ErrNoPermission = Inr ''permission denied''"
| "error_Error ErrConfig = Inr ''configuration error''"
| "error_Error ErrAuth = Inr ''authentication error''"
| "error_Error ErrForbidden = Inr ''forbidden''"
| "error_Error ErrValidation = Inr ''validation error''"
| "error_Error ErrIO = Inr ''I/O error''"
| "error_Error ErrUnavailable = Inr ''service unavailable''"
| "error_Error ErrTempFail = Inr ''temporary failure''"
| "error_Error Canceled = Inr ''context canceled''"
| "error_Error DeadlineExceeded = Inr ''context deadline exceeded''"
| "error_Error ErrNotExist = Inr ''file does not exist''"
| "error_Error ErrPermission = Inr ''permission denied''"
| "error_Error (WrapError msg e) = Inr msg"
| "error_Error (PathError op path e) =
     bind_panic (error_Error e) (\<lambda>t. Inr (op @ '' '' @ path @ '': '' @ t))"
| "error_Error (NetError t timeout temporary) = Inr t"
| "error_Error (JoinError e es) = join_Error (e # es)"
| "ExitError_Error (ExitError code message cause) =
     (if message \<noteq> [] then Inr message
      else case cause of
             Some c \<Rightarrow> error_Error c
           | None \<Rightarrow> Inr (ExitCode_String code))"
| "join_Error [] = Inr []"
| "join_Error [e] = error_Error e"
| "join_Error (e # es) =
     bind_panic (error_Error e) (\<lambda>a.
     bind_panic (join_Error es) (\<lambda>b. Inr (a @ [CHR 0x0A] @ b)))"

text \<open>
  The loop that \<open>errors.Is\<close> and \<open>errors.As\<close> share: test the error (\<open>f\<close>); failing
  that, call its \<open>Unwrap\<close> method and go on with the result, depth first and in order
  for an \<open>Unwrap() []error\<close>; stop with no match at an error that has no \<open>Unwrap\<close> or
  returns nil. \<open>walk_next\<close> is the call of \<open>Unwrap\<close>:
  \<^verbatim>\<open>func (e *ExitError) Unwrap() error { return e.Cause }\<close> panics on a nil receiver.
\<close>

fun walk :: "(error \<Rightarrow> 'a option) \<Rightarrow> error \<Rightarrow> panic + 'a option"
  and walk_next :: "(error \<Rightarrow> 'a option) \<Rightarrow> error \<Rightarrow> panic + 'a option"
  and walk_list :: "(error \<Rightarrow> 'a option) \<Rightarrow> error list \<Rightarrow> panic + 'a option"
where
  "walk f e = (case f e of Some r \<Rightarrow> Inr (Some r) | None \<Rightarrow> walk_next f e)"
| "walk_next f (ExitErrorPtr None) = Inl NilPointerDereference"
| "walk_next f (ExitErrorPtr (Some (ExitError code message None))) = Inr None"
| "walk_next f (ExitErrorPtr (Some (ExitError code message (Some c)))) = walk f c"
| "walk_next f (WrapError msg c) = walk f c"
| "walk_next f (PathError op path c) = walk f c"
| "walk_next f (JoinError c cs) = walk_list f (c # cs)"
| "walk_next f _ = Inr None"
| "walk_list f [] = Inr None"
| "walk_list f (c # cs) =
     (case walk f c of
        Inl p \<Rightarrow> Inl p
      | Inr (Some r) \<Rightarrow> Inr (Some r)
      | Inr None \<Rightarrow> walk_list f cs)"

text \<open>
  \<open>errors.Is(err, target)\<close> for a non-nil \<open>err\<close>: the test is \<open>err == target\<close>. The
  targets of the resolver are package-level variables, which are distinct constructors
  here as they are distinct pointers in Go.
\<close>

definition is_target :: "error \<Rightarrow> error \<Rightarrow> unit option" where
  "is_target target x = (if x = target then Some () else None)"

definition errors_Is :: "error \<Rightarrow> error \<Rightarrow> panic + bool" where
  "errors_Is e target = bind_panic (walk (is_target target) e) (\<lambda>r. Inr (r \<noteq> None))"

text \<open>
  \<open>errors.As(err, &exitErr)\<close> with \<open>exitErr\<close> a \<open>*ExitError\<close>: the test is whether the
  error's type is \<open>*ExitError\<close>; the pointer found (nil or not) is stored in \<open>exitErr\<close>.
\<close>

definition as_ExitError :: "error \<Rightarrow> ExitError option option" where
  "as_ExitError x = (case x of ExitErrorPtr p \<Rightarrow> Some p | _ \<Rightarrow> None)"

definition errors_As_ExitError :: "error \<Rightarrow> panic + ExitError option option" where
  "errors_As_ExitError e = walk as_ExitError e"

text \<open>
  \<open>errors.As(err, &ne)\<close> with \<open>ne\<close> a \<open>net.Error\<close>: the test is whether the error's type
  has \<open>Timeout() bool\<close> and \<open>Temporary() bool\<close>; the result is what the two return.
  The type of \<open>context.DeadlineExceeded\<close> has both, and both return true.
\<close>

definition as_netError :: "error \<Rightarrow> (bool \<times> bool) option" where
  "as_netError x =
     (case x of
        NetError t timeout temporary \<Rightarrow> Some (timeout, temporary)
      | DeadlineExceeded \<Rightarrow> Some (True, True)
      | _ \<Rightarrow> None)"

definition errors_As_netError :: "error \<Rightarrow> panic + (bool \<times> bool) option" where
  "errors_As_netError e = walk as_netError e"

text \<open>
  \<open>os.IsNotExist\<close> and \<open>os.IsPermission\<close> do not walk the chain: \<open>underlyingError\<close>
  takes the \<open>Err\<close> of a \<open>*PathError\<close>, one level only, and the result is compared with
  \<open>os.ErrNotExist\<close> or \<open>os.ErrPermission\<close>.
\<close>

definition underlyingError :: "error \<Rightarrow> error" where
  "underlyingError e = (case e of PathError op path err \<Rightarrow> err | _ \<Rightarrow> e)"

definition os_IsNotExist :: "error \<Rightarrow> bool" where
  "os_IsNotExist e = (underlyingError e = ErrNotExist)"

definition os_IsPermission :: "error \<Rightarrow> bool" where
  "os_IsPermission e = (underlyingError e = ErrPermission)"

text \<open>\<^verbatim>\<open>func ResolveExitCode(err error) ExitCode\<close>\<close>

definition ResolveExitCode :: "error option \<Rightarrow> panic + ExitCode" where
  "ResolveExitCode err =
     (case err of
        None \<Rightarrow> Inr ExitCodeSuccess
      | Some e \<Rightarrow>
     bind_panic (errors_As_ExitError e) (\<lambda>found.
       case found of
         Some None \<Rightarrow> Inl NilPointerDereference
       | Some (Some exitErr) \<Rightarrow> Inr (Code exitErr)
       | None \<Rightarrow>
     bind_panic (errors_Is e Canceled) (\<lambda>b. if b then Inr ExitCodeInterrupted else
     bind_panic (errors_Is e DeadlineExceeded) (\<lambda>b. if b then Inr ExitCodeTempFail else
     if os_IsNotExist e then Inr ExitCodeNoInput else
     if os_IsPermission e then Inr ExitCodeNoPermission else
     bind_panic (errors_As_netError e) (\<lambda>ne.
       case ne of
         Some (timeout, temporary) \<Rightarrow>
           if timeout then Inr ExitCodeTempFail
           else if temporary then Inr ExitCodeTempFail
           else Inr ExitCodeUnavailable
       | None \<Rightarrow>
     bind_panic (errors_Is e ErrInternal) (\<lambda>b. if b then Inr ExitCodeErrorInternal else
     bind_panic (errors_Is e ErrInvalid) (\<lambda>b. if b then Inr ExitCodeInvalidArgument else
     bind_panic (errors_Is e ErrUsage) (\<lambda>b. if b then Inr ExitCodeUsageError else
     bind_panic (errors_Is e ErrDataFormat) (\<lambda>b. if b then Inr ExitCodeDataError else
     bind_panic (errors_Is e ErrNotFound) (\<lambda>b. if b then Inr ExitCodeNotFound else
     bind_panic (errors_Is e ErrNoPermission) (\<lambda>b. if b then Inr ExitCodeNoPermission else
     bind_panic (errors_Is e ErrConfig) (\<lambda>b. if b then Inr ExitCodeConfig else
     bind_panic (errors_Is e ErrAuth) (\<lambda>b. if b then Inr ExitCodeAuthFailed else
     bind_panic (errors_Is e ErrForbidden) (\<lambda>b. if b then Inr ExitCodeForbidden else
     bind_panic (errors_Is e ErrValidation) (\<lambda>b. if b then Inr ExitCodeValidation else
     bind_panic (errors_Is e ErrIO) (\<lambda>b. if b then Inr ExitCodeIOError else
     bind_panic (errors_Is e ErrUnavailable) (\<lambda>b. if b then Inr ExitCodeUnavailable else
     bind_panic (errors_Is e ErrTempFail) (\<lambda>b. if b then Inr ExitCodeTempFail else
     Inr ExitCodeErrorInternal))))))))))))))))))"

text \<open>
  The constructors. They return a \<open>*ExitError\<close>: \<open>NewExitError\<close> a pointer to a new
  struct, \<open>WithCode\<close> the nil pointer for a nil error. Passing a \<open>*ExitError\<close> \<open>p\<close> where
  an \<open>error\<close> is expected gives the non-nil interface value \<open>as_error p\<close>, also for
  the nil pointer.
\<close>

definition NewExitError :: "ExitCode \<Rightarrow> string \<Rightarrow> error option \<Rightarrow> ExitError option" where
  "NewExitError code message cause = Some (ExitError code message cause)"

definition WithCode :: "error option \<Rightarrow> ExitCode \<Rightarrow> panic + ExitError option" where
  "WithCode err code =
     (case err of
        None \<Rightarrow> Inr None
      | Some e \<Rightarrow> bind_panic (error_Error e) (\<lambda>t. Inr (NewExitError code t (Some e))))"

definition as_error :: "ExitError option \<Rightarrow> error option" where
  "as_error p = Some (ExitErrorPtr p)"

definition UsageError :: "string \<Rightarrow> ExitError option" where
  "UsageError message = NewExitError ExitCodeUsageError message (Some ErrUsage)"

definition ValidationError :: "string \<Rightarrow> ExitError option" where
  "ValidationError message = NewExitError ExitCodeValidation message (Some ErrValidation)"

definition ConfigError :: "string \<Rightarrow> ExitError option" where
  "ConfigError message = NewExitError ExitCodeConfig message (Some ErrConfig)"

definition NotFoundError :: "string \<Rightarrow> ExitError option" where
  "NotFoundError resource =
     NewExitError ExitCodeNotFound (resource @ '' not found'') (Some ErrNotFound)"

definition PermissionError :: "string \<Rightarrow> ExitError option" where
  "PermissionError action =
     NewExitError ExitCodeNoPermission (''permission denied: '' @ action) (Some ErrNoPermission)"

definition AuthError :: "string \<Rightarrow> ExitError option" where
  "AuthError message = NewExitError ExitCodeAuthFailed message (Some ErrAuth)"

definition TempFailError :: "string \<Rightarrow> ExitError option" where
  "TempFailError message = NewExitError ExitCodeTempFail message (Some ErrTempFail)"

text \<open>
  \<^verbatim>\<open>func (e *ExitError) MarshalJSON() ([]byte, error)\<close>, for a non-nil receiver: the
  fields of the local struct \<open>alias\<close> that \<open>json.Marshal\<close> writes, as key and value in
  their order. \<open>cause\<close> has the tag \<open>omitempty\<close>: it is written when the string is
  not empty.
\<close>

datatype json_value = JNumber go_int | JString string

definition MarshalJSON :: "ExitError \<Rightarrow> panic + (string \<times> json_value) list" where
  "MarshalJSON e =
     bind_panic (case Cause e of None \<Rightarrow> Inr [] | Some c \<Rightarrow> error_Error c) (\<lambda>cause.
     bind_panic (ExitError_Error e) (\<lambda>message.
       Inr ([(''code'', JNumber (Code e)),
             (''name'', JString (ExitCode_String (Code e))),
             (''category'', JString (Category (Code e))),
             (''message'', JString message)]
            @ (if cause = [] then [] else [(''cause'', JString cause)]))))"

section \<open>Notions of the specification\<close>

text \<open>
  The chain of an error: the error and, transitively, everything it wraps, in the order
  in which \<open>errors.Is\<close> and \<open>errors.As\<close> visit it (outermost first, depth first through a
  joined error). A nil \<open>*ExitError\<close> wraps nothing.
\<close>

fun chain :: "error \<Rightarrow> error list"
  and chain_list :: "error list \<Rightarrow> error list"
where
  "chain (ExitErrorPtr (Some (ExitError code message (Some c)))) =
     ExitErrorPtr (Some (ExitError code message (Some c))) # chain c"
| "chain (WrapError msg c) = WrapError msg c # chain c"
| "chain (PathError op path c) = PathError op path c # chain c"
| "chain (JoinError c cs) = JoinError c cs # chain_list (c # cs)"
| "chain e = [e]"
| "chain_list [] = []"
| "chain_list (c # cs) = chain c @ chain_list cs"

text \<open>The first element of a list that passes a test, with what the test gives.\<close>

fun first_of :: "('a \<Rightarrow> 'b option) \<Rightarrow> 'a list \<Rightarrow> 'b option" where
  "first_of f [] = None"
| "first_of f (x # xs) = (case f x of Some r \<Rightarrow> Some r | None \<Rightarrow> first_of f xs)"

text \<open>The codes with a named constant, which \<open>String\<close> describes by a fixed text.\<close>

definition named_codes :: "ExitCode list" where
  "named_codes =
     [0, 1, 2, 64, 65, 66, 67, 68, 69, 70, 71, 72, 73, 74, 75, 76, 77, 78,
      80, 81, 82, 83, 84, 85, 86, 87, 130, 143]"

text \<open>
  A white-space rune in UTF-8, and a text made of such runes only: the \<open>concat\<close> of a
  list of them. A byte is plain when it is ASCII and not white space.
\<close>

definition white_space :: "string list" where
  "white_space =
     map (\<lambda>c. [c]) [CHR 0x09, CHR 0x0A, CHR 0x0B, CHR 0x0C, CHR 0x0D, CHR 0x20]
     @ space2 @ space3"

definition plain :: "char \<Rightarrow> bool" where
  "plain c = ((of_char c :: nat) < 128 \<and> \<not> asciiSpace c)"

text \<open>A numeric text: an optional sign and then one or more decimal digits.\<close>

definition numeric :: "string \<Rightarrow> bool" where
  "numeric s =
     (case s of
        [] \<Rightarrow> False
      | c # cs \<Rightarrow>
          if c = CHR ''-'' \<or> c = CHR ''+'' then cs \<noteq> [] \<and> list_all is_digit cs
          else list_all is_digit (c # cs))"

text \<open>
  The resolution rule in the words of the specification, over the chain: the code of
  the first ExitError; else Interrupted for a chain with the canceled sentinel; else
  TempFail for one with the deadline sentinel; else NoInput and NoPermission for the two
  OS conditions; else, for the first error with the network capability, TempFail when
  it reports a timeout or a temporary condition and Unavailable otherwise; else the code
  bound to the first sentinel of the table \<open>sentinel_codes\<close> that the chain holds;
  else ErrorInternal. (Where the first \<open>*ExitError\<close> of the chain is the nil pointer
  there is no code to take: the value given here is not used.)
\<close>

definition sentinel_codes :: "(error \<times> ExitCode) list" where
  "sentinel_codes =
     [(ErrInternal, ExitCodeErrorInternal), (ErrInvalid, ExitCodeInvalidArgument),
      (ErrUsage, ExitCodeUsageError), (ErrDataFormat, ExitCodeDataError),
      (ErrNotFound, ExitCodeNotFound), (ErrNoPermission, ExitCodeNoPermission),
      (ErrConfig, ExitCodeConfig), (ErrAuth, ExitCodeAuthFailed),
      (ErrForbidden, ExitCodeForbidden), (ErrValidation, ExitCodeValidation),
      (ErrIO, ExitCodeIOError), (ErrUnavailable, ExitCodeUnavailable),
      (ErrTempFail, ExitCodeTempFail)]"

definition resolve_by_priority :: "error option \<Rightarrow> ExitCode" where
  "resolve_by_priority err =
     (case err of
        None \<Rightarrow> ExitCodeSuccess
      | Some e \<Rightarrow>
          (case first_of as_ExitError (chain e) of
             Some p \<Rightarrow> (case p of Some x \<Rightarrow> Code x | None \<Rightarrow> ExitCodeErrorInternal)
           | None \<Rightarrow>
               if Canceled \<in> set (chain e) then ExitCodeInterrupted
               else if DeadlineExceeded \<in> set (chain e) then ExitCodeTempFail
               else if os_IsNotExist e then ExitCodeNoInput
               else if os_IsPermission e then ExitCodeNoPermission
               else (case first_of as_netError (chain e) of
                       Some (timeout, temporary) \<Rightarrow>
                         if timeout \<or> temporary then ExitCodeTempFail else ExitCodeUnavailable
                     | None \<Rightarrow>
                         (case first_of (\<lambda>(s, code). if s \<in> set (chain e) then Some code else None)
                                 sentinel_codes of
                            Some code \<Rightarrow> code
                          | None \<Rightarrow> ExitCodeErrorInternal))))"

text \<open>
  What the specification says of the result \<open>p\<close> of a convenience factory and its
  sentinel: \<open>p\<close> points to an ExitError whose cause is the sentinel, the sentinel is in
  the chain and \<open>errors.Is\<close> finds it, and the structured record has the key \<open>cause\<close>.
\<close>

definition factory_result :: "ExitError option \<Rightarrow> error \<Rightarrow> bool" where
  "factory_result p sentinel =
     (case p of
        None \<Rightarrow> False
      | Some x \<Rightarrow>
          Cause x = Some sentinel
          \<and> sentinel \<in> set (chain (ExitErrorPtr p))
          \<and> errors_Is (ExitErrorPtr p) sentinel = Inr True
          \<and> (case MarshalJSON x of
                Inl panic \<Rightarrow> False
              | Inr fields \<Rightarrow> ''cause'' \<in> set (map fst fields)))"

section \<open>Classifier properties\<close>

text \<open>
  C3. For every exit code c, category(c) is success when c = 0, general when
  1 \<le> c \<le> 63, user_error when 64 \<le> c \<le> 79, cli_extended when 80 \<le> c \<le> 99, and
  system_signal for every c \<ge> 128, also for codes with no named constant such as 999.
\<close>

theorem C3_Category_ranges:
  "(c = 0 \<longrightarrow> Category c = ''success'')
   \<and> (1 \<le>s c \<and> c \<le>s 63 \<longrightarrow> Category c = ''general'')
   \<and> (64 \<le>s c \<and> c \<le>s 79 \<longrightarrow> Category c = ''user_error'')
   \<and> (80 \<le>s c \<and> c \<le>s 99 \<longrightarrow> Category c = ''cli_extended'')
   \<and> (128 \<le>s c \<longrightarrow> Category c = ''system_signal'')
   \<and> Category 999 = ''system_signal''"
  by (auto simp: Category_def Category_defs word_sle_eq)

theorem C3_Category_ranges_witness:
  "Category 0 = ''success''
   \<and> ((1::ExitCode) \<le>s 2 \<and> (2::ExitCode) \<le>s 63) \<and> Category 2 = ''general''
   \<and> ((64::ExitCode) \<le>s 78 \<and> (78::ExitCode) \<le>s 79) \<and> Category 78 = ''user_error''
   \<and> ((80::ExitCode) \<le>s 85 \<and> (85::ExitCode) \<le>s 99) \<and> Category 85 = ''cli_extended''
   \<and> (128::ExitCode) \<le>s 143 \<and> Category 143 = ''system_signal''
   \<and> Category 999 = ''system_signal''"
  using C3_Category_ranges [of 0] C3_Category_ranges [of 2] C3_Category_ranges [of 78]
    C3_Category_ranges [of 85] C3_Category_ranges [of 143]
  by (simp add: word_sle_eq)

text \<open>
  C4, as stated: category(c) = unknown implies that c is negative. The codes 100 to 127
  lie between the extended range and the signal range, and the switch sends them to its
  default branch.
\<close>

theorem C4_unknown_nonnegative_counterexample:
  "Category 100 = CategoryUnknown \<and> \<not> (100 :: ExitCode) <s 0"
  by (simp add: Category_def Category_defs word_sle_eq word_sless_alt)

text \<open>
  C4, amended: category(c) = unknown exactly when c is negative or 100 \<le> c \<le> 127.
\<close>

theorem C4_unknown_iff:
  "Category c = CategoryUnknown \<longleftrightarrow> c <s 0 \<or> (100 \<le>s c \<and> c \<le>s 127)"
proof -
  have "sint c = 0 \<longleftrightarrow> c = 0"
    by (metis signed_0 signed_word_eqI)
  then show ?thesis
    by (auto simp: Category_def Category_defs word_sle_eq word_sless_alt)
qed

theorem C4_unknown_iff_witness:
  "Category (- 1) = CategoryUnknown \<and> (- 1 :: ExitCode) <s 0
   \<and> Category 127 = CategoryUnknown \<and> ((100 :: ExitCode) \<le>s 127 \<and> (127 :: ExitCode) \<le>s 127)"
  using C4_unknown_iff [of "- 1"] C4_unknown_iff [of 127]
  by (simp add: word_sle_eq word_sless_alt)

text \<open>
  C5. is_retriable(c) holds exactly for 69 (Unavailable), 74 (IOError), 75 (TempFail)
  and 86 (RateLimit); it is false for Success (0) and for every other code.
\<close>

theorem C5_IsRetriable_iff:
  "(IsRetriable c \<longleftrightarrow> c \<in> {69, 74, 75, 86}) \<and> \<not> IsRetriable ExitCodeSuccess"
  by (auto simp: IsRetriable_def ExitCode_defs)

text \<open>
  C7. For every exit code with a designated HTTP status, going to the status and back
  does not give the internal-error code 1. (It holds for the other codes too: they map
  to 500, which maps back to Software.) The composition is not the identity.
\<close>

theorem C7_http_round_trip_not_internal:
  "(code \<in> set designated \<longrightarrow> FromHTTPStatus (ToHTTPStatus code) \<noteq> ExitCodeErrorInternal)
   \<and> FromHTTPStatus (ToHTTPStatus code) \<noteq> ExitCodeErrorInternal
   \<and> FromHTTPStatus (ToHTTPStatus ExitCodeQuotaExceeded) \<noteq> ExitCodeQuotaExceeded"
  by (simp add: FromHTTPStatus_def ToHTTPStatus_def ExitCode_defs)

theorem C7_http_round_trip_not_internal_witness:
  "ExitCodeTempFail \<in> set designated
   \<and> FromHTTPStatus (ToHTTPStatus ExitCodeTempFail) = ExitCodeUnavailable
   \<and> FromHTTPStatus (ToHTTPStatus ExitCodeTempFail) \<noteq> ExitCodeErrorInternal"
  using C7_http_round_trip_not_internal [of ExitCodeTempFail]
  by (simp add: FromHTTPStatus_def ToHTTPStatus_def ExitCode_defs designated_def)

lemma IsUserError_iff: "IsUserError c \<longleftrightarrow> c \<in> {2, 64, 65, 66, 67, 68, 77, 78, 83, 85}"
  by (auto simp: IsUserError_def ExitCode_defs)

section \<open>Text form: rendering and parsing\<close>

lemma is_digit_digit_char: "d < 10 \<Longrightarrow> is_digit (digit_char d)"
  by (simp add: is_digit_def digit_char_def)

lemma of_char_digit_char: "d < 10 \<Longrightarrow> (of_char (digit_char d) :: nat) - 48 = d"
  by (simp add: digit_char_def)

lemma utoa_digits: "list_all is_digit (utoa n)"
  by (induction n rule: utoa.induct) (subst utoa.simps, simp add: is_digit_digit_char)

lemma utoa_nonempty: "utoa n \<noteq> []"
  by (subst utoa.simps) simp

lemma digits_value_utoa: "digits_value (utoa n) = n"
proof (induction n rule: utoa.induct)
  case (1 n)
  show ?case
  proof (cases "n < 10")
    case True
    then show ?thesis
      by (subst utoa.simps) (simp add: digits_value_def of_char_digit_char)
  next
    case False
    then have ih: "digits_value (utoa (n div 10)) = n div 10"
      using 1 by simp
    have "digits_value (utoa n) = digits_value (utoa (n div 10)) * 10 + n mod 10"
      using False by (subst utoa.simps) (simp add: digits_value_def of_char_digit_char)
    then show ?thesis using ih by simp
  qed
qed

lemma is_digit_hd_utoa: "is_digit (hd (utoa n))"
  using utoa_digits [of n] utoa_nonempty [of n] by (cases "utoa n") simp_all

lemma is_digit_last_utoa: "is_digit (last (utoa n))"
  using utoa_digits [of n] utoa_nonempty [of n] by (simp add: list_all_iff)

lemma hd_utoa_not_sign: "hd (utoa n) \<noteq> CHR ''-'' \<and> hd (utoa n) \<noteq> CHR ''+''"
  using is_digit_hd_utoa [of n] by (auto simp: is_digit_def)

lemma Atoi_Itoa: "Atoi (Itoa c) = Some c"
proof (cases "c <s 0")
  case True
  then have neg: "sint c < 0" by (simp add: word_sless_alt)
  have lo: "- (2 ^ 63) \<le> sint c" using sint_ge [of c] by simp
  show ?thesis using True neg lo
    by (simp add: Atoi_def Itoa_def utoa_digits utoa_nonempty digits_value_utoa)
next
  case False
  then have pos: "0 \<le> sint c" by (simp add: word_sless_alt)
  have hi: "sint c < 2 ^ 63" using sint_lt [of c] by simp
  show ?thesis using False pos hi hd_utoa_not_sign [of "nat (sint c)"]
    by (simp add: Atoi_def Itoa_def utoa_digits utoa_nonempty digits_value_utoa)
qed

lemma Atoi_not_numeric: "\<not> numeric s \<Longrightarrow> Atoi s = None"
  by (cases s) (auto simp: Atoi_def numeric_def Let_def)

lemma Atoi_numeric:
  assumes "numeric s"
  shows "Atoi s \<noteq> None \<longleftrightarrow>
           (if hd s = CHR ''-'' then digits_value (tl s) \<le> 2 ^ 63
            else if hd s = CHR ''+'' then digits_value (tl s) < 2 ^ 63
            else digits_value s < 2 ^ 63)"
proof (cases s)
  case Nil
  then show ?thesis using assms by (simp add: numeric_def)
next
  case (Cons x xs)
  then show ?thesis using assms
    by (auto simp: Atoi_def numeric_def Let_def split: if_splits)
qed

lemma numeric_utoa: "numeric (utoa n)"
  using utoa_digits [of n] utoa_nonempty [of n] hd_utoa_not_sign [of n]
  by (cases "utoa n") (auto simp: numeric_def)

lemma space2_shape:
  "w \<in> set space2 \<Longrightarrow> length w = 2 \<and> \<not> asciiSpace (hd w) \<and> \<not> asciiSpace (last w)"
  by (auto simp: space2_def asciiSpace_def)

lemma space3_length: "w \<in> set space3 \<Longrightarrow> length w = 3"
  by (auto simp: space3_def)

lemma space3_hd: "w \<in> set space3 \<Longrightarrow> hd w \<in> {CHR 0xE1, CHR 0xE2, CHR 0xE3}"
  by (auto simp: space3_def)

lemma space3_last: "w \<in> set space3 \<Longrightarrow> 128 \<le> (of_char (last w) :: nat)"
  by (auto simp: space3_def)

lemma space2_hd: "w \<in> set space2 \<Longrightarrow> hd w = CHR 0xC2"
  by (auto simp: space2_def)

lemma space2_last: "w \<in> set space2 \<Longrightarrow> 128 \<le> (of_char (last w) :: nat)"
  by (auto simp: space2_def)

lemma space3_take2: "w \<in> set space3 \<Longrightarrow> take 2 w \<notin> set space2"
  by (auto simp: space3_def space2_def)

lemma space3_drop1: "w \<in> set space3 \<Longrightarrow> drop 1 w \<notin> set space2"
  by (auto simp: space3_def space2_def)

lemma asciiSpace_low: "asciiSpace c \<Longrightarrow> (of_char c :: nat) < 128"
  by (auto simp: asciiSpace_def)

lemma space3_ends: "w \<in> set space3 \<Longrightarrow> \<not> asciiSpace (hd w) \<and> \<not> asciiSpace (last w)"
  using space3_hd [of w] space3_last [of w] asciiSpace_low [of "hd w"] asciiSpace_low [of "last w"]
  by auto

lemma white_space_cases:
  "w \<in> set white_space \<Longrightarrow>
     (\<exists>c. w = [c] \<and> asciiSpace c) \<or> w \<in> set space2 \<or> w \<in> set space3"
  by (auto simp: white_space_def asciiSpace_def)

lemma white_space_nonempty: "w \<in> set white_space \<Longrightarrow> w \<noteq> []"
  using white_space_cases space2_shape space3_length by fastforce

lemma leading_space_white:
  assumes "w \<in> set white_space"
  shows "leading_space (w @ s) = length w"
proof -
  consider c where "w = [c]" "asciiSpace c" | "w \<in> set space2" | "w \<in> set space3"
    using white_space_cases [OF assms] by blast
  then show ?thesis
  proof cases
    case 1
    then show ?thesis by (simp add: leading_space_def)
  next
    case 2
    then have len: "length w = 2" and hd: "\<not> asciiSpace (hd w)"
      using space2_shape by blast+
    from len have ne: "w \<noteq> []" by auto
    show ?thesis using 2 len hd ne by (simp add: leading_space_def)
  next
    case 3
    then have len: "length w = 3" and hd: "\<not> asciiSpace (hd w)"
      and t2: "take 2 w \<notin> set space2"
      using space3_length space3_ends space3_take2 by blast+
    from len have ne: "w \<noteq> []" by auto
    show ?thesis using 3 len hd ne t2 by (simp add: leading_space_def)
  qed
qed

lemma trailing_space_white:
  assumes "w \<in> set white_space"
  shows "trailing_space (s @ w) = length w"
proof -
  consider c where "w = [c]" "asciiSpace c" | "w \<in> set space2" | "w \<in> set space3"
    using white_space_cases [OF assms] by blast
  then show ?thesis
  proof cases
    case 1
    then show ?thesis by (simp add: trailing_space_def)
  next
    case 2
    then have len: "length w = 2" and la: "\<not> asciiSpace (last w)"
      using space2_shape by blast+
    from len have ne: "w \<noteq> []" by auto
    have "take 2 (rev w @ rev s) = rev w" using len by simp
    then show ?thesis using 2 len la ne by (simp add: trailing_space_def hd_rev)
  next
    case 3
    then have len: "length w = 3" and la: "\<not> asciiSpace (last w)"
      and d1: "drop 1 w \<notin> set space2"
      using space3_length space3_ends space3_drop1 by blast+
    from len have ne: "w \<noteq> []" by auto
    have t3: "take 3 (rev w @ rev s) = rev w" using len by simp
    have "take 2 (rev w @ rev s) = take 2 (rev w)" using len by simp
    also have "\<dots> = rev (drop 1 w)" using len by (simp add: take_rev)
    finally have t2: "rev (take 2 (rev w @ rev s)) = drop 1 w" by simp
    show ?thesis using 3 len la ne d1 t2 t3 by (simp add: trailing_space_def hd_rev)
  qed
qed

lemma TrimLeft_white: "set ws \<subseteq> set white_space \<Longrightarrow> TrimLeft (concat ws @ s) = TrimLeft s"
proof (induction ws)
  case Nil
  then show ?case by simp
next
  case (Cons w ws)
  then have w: "w \<in> set white_space" by simp
  then have "w \<noteq> []" by (rule white_space_nonempty)
  then show ?case using Cons leading_space_white [OF w, of "concat ws @ s"]
    by (subst TrimLeft.simps) simp
qed

lemma TrimRight_white: "set ws \<subseteq> set white_space \<Longrightarrow> TrimRight (s @ concat ws) = TrimRight s"
proof (induction ws rule: rev_induct)
  case Nil
  then show ?case by simp
next
  case (snoc w ws)
  then have w: "w \<in> set white_space" by simp
  then have "w \<noteq> []" by (rule white_space_nonempty)
  then show ?case using snoc trailing_space_white [OF w, of "s @ concat ws"]
    by (subst TrimRight.simps) simp
qed

lemma leading_space_plain:
  assumes "s \<noteq> []" "plain (hd s)"
  shows "leading_space s = 0"
proof -
  obtain c r where s: "s = c # r" using assms(1) by (cases s) auto
  have c: "(of_char c :: nat) < 128" "\<not> asciiSpace c" using assms(2) s by (simp_all add: plain_def)
  have "take 2 s \<notin> set space2"
  proof
    assume "take 2 s \<in> set space2"
    from space2_hd [OF this] have "c = CHR 0xC2" using s by simp
    then show False using c by simp
  qed
  moreover have "take 3 s \<notin> set space3"
  proof
    assume "take 3 s \<in> set space3"
    from space3_hd [OF this] have "c \<in> {CHR 0xE1, CHR 0xE2, CHR 0xE3}" using s by simp
    then show False using c by auto
  qed
  ultimately show ?thesis using c s by (simp add: leading_space_def)
qed

lemma trailing_space_plain:
  assumes "s \<noteq> []" "plain (last s)"
  shows "trailing_space s = 0"
proof -
  obtain c r where r: "rev s = c # r" using assms(1) by (cases "rev s") auto
  then have "last s = c" by (metis last_rev list.sel(1) rev_rev_ident)
  then have c: "(of_char c :: nat) < 128" "\<not> asciiSpace c" using assms(2) by (simp_all add: plain_def)
  have "rev (take 2 (rev s)) \<notin> set space2"
  proof
    assume "rev (take 2 (rev s)) \<in> set space2"
    from space2_last [OF this] have "128 \<le> (of_char c :: nat)" using r by (simp add: last_rev)
    then show False using c by simp
  qed
  moreover have "rev (take 3 (rev s)) \<notin> set space3"
  proof
    assume "rev (take 3 (rev s)) \<in> set space3"
    from space3_last [OF this] have "128 \<le> (of_char c :: nat)" using r by (simp add: last_rev)
    then show False using c by simp
  qed
  ultimately show ?thesis using c r by (simp add: trailing_space_def)
qed

lemma TrimSpace_surrounded:
  assumes "set a \<subseteq> set white_space" "set b \<subseteq> set white_space"
    and "s \<noteq> []" "plain (hd s)" "plain (last s)"
  shows "TrimSpace (concat a @ s @ concat b) = s"
proof -
  have "TrimLeft (concat a @ s @ concat b) = TrimLeft (s @ concat b)"
    using assms(1) by (rule TrimLeft_white)
  also have "\<dots> = s @ concat b"
    using assms(3,4) leading_space_plain [of "s @ concat b"] by (subst TrimLeft.simps) simp
  finally have "TrimSpace (concat a @ s @ concat b) = TrimRight (s @ concat b)"
    by (simp add: TrimSpace_def)
  also have "\<dots> = TrimRight s" using assms(2) by (rule TrimRight_white)
  also have "\<dots> = s"
    using assms(3,5) trailing_space_plain [of s] by (subst TrimRight.simps) simp
  finally show ?thesis .
qed

lemma TrimSpace_plain:
  assumes "s \<noteq> []" "plain (hd s)" "plain (last s)"
  shows "TrimSpace s = s"
  using TrimSpace_surrounded [of "[]" "[]" s] assms by simp

lemma TrimSpace_blank:
  assumes "set ws \<subseteq> set white_space"
  shows "TrimSpace (concat ws) = []"
proof -
  have "TrimLeft (concat ws @ []) = TrimLeft []" using assms by (rule TrimLeft_white)
  then have "TrimLeft (concat ws) = []" by (simp add: TrimLeft.simps leading_space_def)
  then show ?thesis by (simp add: TrimSpace_def TrimRight.simps trailing_space_def)
qed

lemma plain_digit: "is_digit c \<Longrightarrow> plain c"
  by (auto simp: is_digit_def plain_def asciiSpace_def)

lemma TrimSpace_Itoa: "TrimSpace (Itoa c) = Itoa c"
proof (rule TrimSpace_plain)
  show "Itoa c \<noteq> []" by (simp add: Itoa_def utoa_nonempty)
  show "plain (hd (Itoa c))"
    using is_digit_hd_utoa [of "nat (sint c)"]
    by (simp add: Itoa_def plain_digit) (simp add: plain_def asciiSpace_def)
  show "plain (last (Itoa c))"
    using is_digit_last_utoa [of "nat (sint c)"] is_digit_last_utoa [of "nat (- sint c)"]
    by (simp add: Itoa_def plain_digit utoa_nonempty)
qed

lemma Itoa_nonempty: "Itoa c \<noteq> []"
  by (simp add: Itoa_def utoa_nonempty)

lemma UnmarshalText_MarshalText: "UnmarshalText c0 (fst (MarshalText c)) = (c, None)"
  by (simp add: UnmarshalText_def MarshalText_def TrimSpace_Itoa Atoi_Itoa Itoa_nonempty)

lemma UnmarshalText_blank:
  "set ws \<subseteq> set white_space \<Longrightarrow> UnmarshalText c0 (concat ws) = (ExitCodeSuccess, None)"
  by (simp add: UnmarshalText_def TrimSpace_blank)

lemma UnmarshalText_not_numeric:
  assumes "TrimSpace text \<noteq> []" "\<not> numeric (TrimSpace text)"
  shows "UnmarshalText c0 text = (c0, Some (InvalidExitCodeText (TrimSpace text)))"
  using assms Atoi_not_numeric [of "TrimSpace text"] by (simp add: UnmarshalText_def)

lemma TrimSpace_abc: "TrimSpace ''abc'' = ''abc''"
  by (rule TrimSpace_plain) (simp_all add: plain_def asciiSpace_def)

lemma UnmarshalText_abc: "UnmarshalText c0 ''abc'' = (c0, Some (InvalidExitCodeText ''abc''))"
  using UnmarshalText_not_numeric [of "''abc''" c0]
  by (simp add: TrimSpace_abc numeric_def is_digit_def)

lemma UnmarshalText_surrounded:
  assumes "set a \<subseteq> set white_space" "set b \<subseteq> set white_space"
    and "s \<noteq> []" "plain (hd s)" "plain (last s)"
  shows "UnmarshalText c0 (concat a @ s @ concat b) = UnmarshalText c0 s"
  using TrimSpace_surrounded [OF assms] TrimSpace_plain [OF assms(3,4,5)]
  by (simp add: UnmarshalText_def)

text \<open>
  C6. The text form of a bare code round-trips: for every code c \<ge> 0, parsing the
  decimal text of c gives c and no error (and \<open>MarshalText\<close> returns those digits
  with no error); a text of white space only gives Success (0) and no error; a text
  that after trimming is not empty and not numeric fails with the format error and
  leaves the code as it was, as "abc" does; and white space around a text is trimmed
  before the text is read.
\<close>

theorem C6_text_round_trip:
  "(0 \<le>s c \<longrightarrow>
      snd (MarshalText c) = None \<and> list_all is_digit (fst (MarshalText c))
      \<and> UnmarshalText c0 (fst (MarshalText c)) = (c, None))
   \<and> (set ws \<subseteq> set white_space \<longrightarrow> UnmarshalText c0 (concat ws) = (ExitCodeSuccess, None))
   \<and> (TrimSpace text \<noteq> [] \<and> \<not> numeric (TrimSpace text) \<longrightarrow>
        UnmarshalText c0 text = (c0, Some (InvalidExitCodeText (TrimSpace text))))
   \<and> UnmarshalText c0 ''abc'' = (c0, Some (InvalidExitCodeText ''abc''))
   \<and> (set a \<subseteq> set white_space \<and> set b \<subseteq> set white_space
        \<and> s \<noteq> [] \<and> plain (hd s) \<and> plain (last s)
        \<longrightarrow> UnmarshalText c0 (concat a @ s @ concat b) = UnmarshalText c0 s)"
proof -
  have "list_all is_digit (fst (MarshalText c))" if "0 \<le>s c"
    using that utoa_digits [of "nat (sint c)"]
    by (simp add: MarshalText_def Itoa_def word_sle_eq word_sless_alt)
  then show ?thesis
    using UnmarshalText_MarshalText [of c0 c] UnmarshalText_blank [of ws c0]
      UnmarshalText_not_numeric [of "text" c0] UnmarshalText_abc [of c0]
      UnmarshalText_surrounded [of a b s c0]
    by (simp add: MarshalText_def)
qed

theorem C6_text_round_trip_witness:
  "(0 :: ExitCode) \<le>s 85 \<and> MarshalText 85 = (''85'', None) \<and> UnmarshalText 7 ''85'' = (85, None)
   \<and> set [[CHR 0x20], [CHR 0x09], [CHR 0xC2, CHR 0xA0]] \<subseteq> set white_space
   \<and> UnmarshalText 7 [CHR 0x20, CHR 0x09, CHR 0xC2, CHR 0xA0] = (0, None)
   \<and> TrimSpace ''8x'' \<noteq> [] \<and> \<not> numeric (TrimSpace ''8x'')
   \<and> UnmarshalText 7 ''8x'' = (7, Some (InvalidExitCodeText ''8x''))
   \<and> set [[CHR 0x20]] \<subseteq> set white_space \<and> set [[CHR 0x20], [CHR 0x0A]] \<subseteq> set white_space
   \<and> plain (hd ''85'') \<and> plain (last ''85'')
   \<and> UnmarshalText 7 [CHR 0x20, CHR ''8'', CHR ''5'', CHR 0x20, CHR 0x0A] = (85, None)"
proof -
  have itoa: "Itoa 85 = ''85''" by code_simp
  have trim: "TrimSpace ''8x'' = ''8x''"
    by (rule TrimSpace_plain) (simp_all add: plain_def asciiSpace_def)
  have atoi: "UnmarshalText 7 ''85'' = (85, None)"
    using UnmarshalText_MarshalText [of 7 85] by (simp add: MarshalText_def itoa)
  have p: "plain (hd ''85'')" "plain (last ''85'')" by (simp_all add: plain_def asciiSpace_def)
  have w: "set [[CHR 0x20], [CHR 0x09], [CHR 0xC2, CHR 0xA0]] \<subseteq> set white_space"
    "set [[CHR 0x20]] \<subseteq> set white_space" "set [[CHR 0x20], [CHR 0x0A]] \<subseteq> set white_space"
    by (simp_all add: white_space_def space2_def)
  show ?thesis
    using C6_text_round_trip [of 85 7 "[[CHR 0x20], [CHR 0x09], [CHR 0xC2, CHR 0xA0]]"
        "''8x''" "[[CHR 0x20]]" "[[CHR 0x20], [CHR 0x0A]]" "''85''"]
      itoa trim atoi p w
    by (simp add: word_sle_eq numeric_def is_digit_def ExitCodeSuccess_def MarshalText_def)
qed


section \<open>The resolver\<close>

text \<open>
  The walk of \<open>errors.Is\<close> and \<open>errors.As\<close> finds the first element of the chain that
  passes the test, provided that the test passes at a nil \<open>*ExitError\<close> or the
  chain has none (the walk panics when it calls \<open>Unwrap\<close> on one).
\<close>

lemma first_of_append:
  "first_of f (xs @ ys) = (case first_of f xs of Some r \<Rightarrow> Some r | None \<Rightarrow> first_of f ys)"
  by (induction xs) (auto split: option.splits)

lemma hd_chain: "chain e = e # tl (chain e)"
  by (induction e rule: chain_chain_list.induct(1)[where Q="\<lambda>_. True"]) auto

lemma walk_chain:
  fixes f :: "error \<Rightarrow> 'a option"
  shows "(f (ExitErrorPtr None) \<noteq> None \<or> ExitErrorPtr None \<notin> set (chain e))
           \<Longrightarrow> walk f e = Inr (first_of f (chain e))"
    and "(f (ExitErrorPtr None) \<noteq> None \<or> ExitErrorPtr None \<notin> set (chain e))
           \<Longrightarrow> f e = None \<Longrightarrow> walk_next f e = Inr (first_of f (tl (chain e)))"
    and "(f (ExitErrorPtr None) \<noteq> None \<or> ExitErrorPtr None \<notin> set (chain_list es))
           \<Longrightarrow> walk_list f es = Inr (first_of f (chain_list es))"
proof (induction f e and f e and f es rule: walk_walk_next_walk_list.induct)
  case (1 f e)
  show ?case
  proof (cases "f e")
    case None
    then show ?thesis using 1 by (subst hd_chain) simp
  next
    case (Some r)
    then show ?thesis by (subst hd_chain) simp
  qed
qed (auto simp: first_of_append split: option.splits sum.splits)


lemma first_of_None_iff: "first_of f xs = None \<longleftrightarrow> (\<forall>x \<in> set xs. f x = None)"
  by (induction xs) (auto split: option.splits)

lemma first_of_is_target: "first_of (is_target t) xs = Some () \<longleftrightarrow> t \<in> set xs"
  by (induction xs) (auto simp: is_target_def split: option.splits)

lemma errors_As_ExitError_chain:
  "errors_As_ExitError e = Inr (first_of as_ExitError (chain e))"
  unfolding errors_As_ExitError_def
  by (rule walk_chain(1)) (simp add: as_ExitError_def)

lemma no_ExitError_no_nil:
  "first_of as_ExitError (chain e) = None \<Longrightarrow> ExitErrorPtr None \<notin> set (chain e)"
  by (auto simp: first_of_None_iff as_ExitError_def)

lemma errors_Is_chain:
  "ExitErrorPtr None \<notin> set (chain e) \<Longrightarrow> errors_Is e t = Inr (t \<in> set (chain e))"
  unfolding errors_Is_def
  using walk_chain(1) [of "is_target t" e]
  by (simp add: bind_panic_def first_of_is_target del: walk.simps)

lemma errors_As_netError_chain:
  "ExitErrorPtr None \<notin> set (chain e) \<Longrightarrow>
     errors_As_netError e = Inr (first_of as_netError (chain e))"
  unfolding errors_As_netError_def
  by (rule walk_chain(1)) simp

lemma ResolveExitCode_nil_pointer:
  "first_of as_ExitError (chain e) = Some None \<Longrightarrow>
     ResolveExitCode (Some e) = Inl NilPointerDereference"
  by (simp add: ResolveExitCode_def errors_As_ExitError_chain bind_panic_def)

lemma ResolveExitCode_ExitError:
  "first_of as_ExitError (chain e) = Some (Some x) \<Longrightarrow>
     ResolveExitCode (Some e) = Inr (Code x)"
  by (simp add: ResolveExitCode_def errors_As_ExitError_chain bind_panic_def)

lemma ResolveExitCode_no_ExitError:
  assumes "first_of as_ExitError (chain e) = None"
  shows "ResolveExitCode (Some e) = Inr (resolve_by_priority (Some e))"
proof -
  have nil: "ExitErrorPtr None \<notin> set (chain e)"
    using assms by (rule no_ExitError_no_nil)
  have sentinel: "\<And>t. errors_Is e t = Inr (t \<in> set (chain e))"
    using nil by (rule errors_Is_chain)
  have net: "errors_As_netError e = Inr (first_of as_netError (chain e))"
    using nil by (rule errors_As_netError_chain)
  show ?thesis
    unfolding ResolveExitCode_def resolve_by_priority_def sentinel_codes_def
    by (simp add: errors_As_ExitError_chain assms sentinel net bind_panic_def
             split: option.splits prod.splits)
qed

lemma ResolveExitCode_by_priority:
  "ResolveExitCode None = Inr (resolve_by_priority None)"
  "first_of as_ExitError (chain e) \<noteq> Some None \<Longrightarrow>
     ResolveExitCode (Some e) = Inr (resolve_by_priority (Some e))"
proof -
  show "ResolveExitCode None = Inr (resolve_by_priority None)"
    by (simp add: ResolveExitCode_def resolve_by_priority_def)
next
  assume a: "first_of as_ExitError (chain e) \<noteq> Some None"
  show "ResolveExitCode (Some e) = Inr (resolve_by_priority (Some e))"
  proof (cases "first_of as_ExitError (chain e)")
    case None
    then show ?thesis by (rule ResolveExitCode_no_ExitError)
  next
    case (Some p)
    with a obtain x where "first_of as_ExitError (chain e) = Some (Some x)" by (cases p) auto
    then show ?thesis
      by (simp add: ResolveExitCode_ExitError resolve_by_priority_def)
  qed
qed


lemma first_of_Some_mem: "first_of f xs = Some r \<Longrightarrow> \<exists>x \<in> set xs. f x = Some r"
  by (induction xs) (auto split: option.splits)

lemma ResolveExitCode_returns:
  assumes "ExitErrorPtr None \<notin> set (chain e)"
  shows "ResolveExitCode (Some e) = Inr (resolve_by_priority (Some e))"
proof (rule ResolveExitCode_by_priority(2))
  show "first_of as_ExitError (chain e) \<noteq> Some None"
  proof
    assume "first_of as_ExitError (chain e) = Some None"
    then obtain x where x: "x \<in> set (chain e)" "as_ExitError x = Some None"
      using first_of_Some_mem by fastforce
    from x(2) have "x = ExitErrorPtr None"
      by (cases x) (simp_all add: as_ExitError_def)
    then show False using x(1) assms by simp
  qed
qed

text \<open>
  C1, at the input where it fails. \<open>WithCode(nil, code)\<close> returns the nil
  \<open>*ExitError\<close>; passed to \<open>ResolveExitCode\<close> it is a non-nil \<open>error\<close>, \<open>errors.As\<close>
  stores the nil pointer in \<open>exitErr\<close>, and \<open>exitErr.Code\<close> panics: resolution raises.
  On every other input the priority order of the claim holds and a code is returned:
  that is \<open>ResolveExitCode_by_priority\<close> and \<open>ResolveExitCode_returns\<close> above.
\<close>

theorem C1_ResolveExitCode_nil_ExitError_panics:
  "WithCode None ExitCodeConfig = Inr None
   \<and> ResolveExitCode (as_error None) = Inl NilPointerDereference
   \<and> ResolveExitCode (Some (WrapError ''run: <nil>'' (ExitErrorPtr None)))
       = Inl NilPointerDereference"
  by (simp add: WithCode_def as_error_def ResolveExitCode_def errors_As_ExitError_def
        as_ExitError_def bind_panic_def)

text \<open>
  C2, as stated: resolve returns X for any error whose chain contains an ExitError
  made with code X. Rebinding such an error with \<open>WithCode\<close> to the code 78 gives an
  error whose chain contains the ExitError with code 85, and resolve returns 78:
  \<open>errors.As\<close> stops at the outermost ExitError.
\<close>

theorem C2_outer_ExitError_counterexample:
  "ExitErrorPtr (Some (ExitError 85 ''validation failed'' None))
     \<in> set (chain (ExitErrorPtr (Some (ExitError 78 ''validation failed''
                (Some (ExitErrorPtr (Some (ExitError 85 ''validation failed'' None))))))))
   \<and> WithCode (Some (ExitErrorPtr (Some (ExitError 85 ''validation failed'' None)))) 78
       = Inr (Some (ExitError 78 ''validation failed''
                (Some (ExitErrorPtr (Some (ExitError 85 ''validation failed'' None))))))
   \<and> ResolveExitCode (Some (ExitErrorPtr (Some (ExitError 78 ''validation failed''
                (Some (ExitErrorPtr (Some (ExitError 85 ''validation failed'' None))))))))
       = Inr 78
   \<and> Inr 78 \<noteq> (Inr 85 :: panic + ExitCode)"
  by (simp add: WithCode_def NewExitError_def ResolveExitCode_def errors_As_ExitError_def
        as_ExitError_def bind_panic_def)

lemma chain_wrapped:
  "first_of as_ExitError (chain (foldr WrapError ms e)) = first_of as_ExitError (chain e)"
  by (induction ms) (simp_all add: as_ExitError_def)

text \<open>
  C2, amended: resolve applied to an ExitError made with code X returns X, and so does
  resolve applied to that ExitError wrapped with \<open>%w\<close> to any depth; in general resolve
  returns the code of the first ExitError of the chain (outermost first), whatever else
  the chain holds: no sentinel, OS condition or network capability is looked at.
\<close>

theorem C2_first_ExitError_wins:
  "ResolveExitCode (as_error (NewExitError X m cause)) = Inr X
   \<and> ResolveExitCode (Some (foldr WrapError ms (ExitErrorPtr (NewExitError X m cause)))) = Inr X
   \<and> (first_of as_ExitError (chain e) = Some (Some x) \<longrightarrow>
        ResolveExitCode (Some e) = Inr (Code x))"
proof -
  have "first_of as_ExitError (chain (ExitErrorPtr (Some (ExitError X m cause))))
          = Some (Some (ExitError X m cause))"
    by (subst hd_chain) (simp add: as_ExitError_def)
  then have "first_of as_ExitError (chain (foldr WrapError ms (ExitErrorPtr (Some (ExitError X m cause)))))
          = Some (Some (ExitError X m cause))" for ms
    by (simp add: chain_wrapped)
  from this [of "[]"] this [of ms] show ?thesis
    by (auto simp: as_error_def NewExitError_def dest!: ResolveExitCode_ExitError)
qed

theorem C2_first_ExitError_wins_witness:
  "first_of as_ExitError
     (chain (JoinError Canceled
        [WrapError ''check: bad input'' (ExitErrorPtr (Some (ExitError 85 ''bad input'' (Some ErrNotFound))))]))
     = Some (Some (ExitError 85 ''bad input'' (Some ErrNotFound)))
   \<and> ResolveExitCode
        (Some (JoinError Canceled
           [WrapError ''check: bad input'' (ExitErrorPtr (Some (ExitError 85 ''bad input'' (Some ErrNotFound))))]))
     = Inr 85"
  using C2_first_ExitError_wins [of _ _ _ _
      "JoinError Canceled
        [WrapError ''check: bad input'' (ExitErrorPtr (Some (ExitError 85 ''bad input'' (Some ErrNotFound))))]"
      "ExitError 85 ''bad input'' (Some ErrNotFound)"]
  by (simp add: as_ExitError_def)

section \<open>Rendering an ExitError\<close>

text \<open>
  C9. The rendered string of an ExitError is the message when the message is not
  empty; otherwise the rendered text of the cause when there is a cause; otherwise the
  description of the code, which for a code with no named constant is
  "Unknown exit code: " followed by the number.
\<close>

theorem C9_ExitError_Error_rule:
  "(message \<noteq> [] \<longrightarrow> ExitError_Error (ExitError code message cause) = Inr message)
   \<and> (message = [] \<and> cause = Some c \<longrightarrow>
        ExitError_Error (ExitError code message cause) = error_Error c)
   \<and> (message = [] \<and> cause = None \<longrightarrow>
        ExitError_Error (ExitError code message cause) = Inr (ExitCode_String code))
   \<and> (code \<notin> set named_codes \<longrightarrow> ExitCode_String code = ''Unknown exit code: '' @ Itoa code)"
  by (simp add: ExitCode_String_def named_codes_def ExitCode_defs)

theorem C9_ExitError_Error_rule_witness:
  "ExitError_Error (ExitError 78 ''custom message'' (Some ErrConfig)) = Inr ''custom message''
   \<and> ExitError_Error (ExitError 74 [] (Some (ErrorString ''root cause''))) = Inr ''root cause''
   \<and> ExitError_Error (ExitError 83 [] None) = Inr ''Not found''
   \<and> (999 :: ExitCode) \<notin> set named_codes
   \<and> ExitError_Error (ExitError 999 [] None) = Inr ''Unknown exit code: 999''"
proof -
  have itoa: "Itoa 999 = ''999''" by code_simp
  have str: "ExitCode_String 83 = ''Not found''" by (simp add: ExitCode_String_def ExitCode_defs)
  show ?thesis
    using C9_ExitError_Error_rule [of "''custom message''" 78 "Some ErrConfig" ErrConfig]
      C9_ExitError_Error_rule [of "[]" 74 "Some (ErrorString ''root cause'')" "ErrorString ''root cause''"]
      C9_ExitError_Error_rule [of "[]" 83 None ErrConfig]
      C9_ExitError_Error_rule [of "[]" 999 None ErrConfig] itoa str
    by (simp add: named_codes_def)
qed

text \<open>
  C8, at its input: the structured record of \<open>ValidationError("invalid input")\<close> has
  code 85, category "cli_extended", message "invalid input", and also the key
  \<open>cause\<close> with the text of \<open>ErrValidation\<close>, where the claim (and the README's
  marshaling example) have no such key.
\<close>

theorem C8_ValidationError_json_has_cause:
  "ValidationError ''invalid input'' = Some (ExitError 85 ''invalid input'' (Some ErrValidation))
   \<and> MarshalJSON (ExitError 85 ''invalid input'' (Some ErrValidation))
       = Inr [(''code'', JNumber 85), (''name'', JString ''Validation error''),
              (''category'', JString ''cli_extended''), (''message'', JString ''invalid input''),
              (''cause'', JString ''validation error'')]"
  by (simp add: ValidationError_def NewExitError_def MarshalJSON_def bind_panic_def
        ExitCode_String_def Category_def Category_defs ExitCode_defs word_sle_eq)

text \<open>
  When the record has a cause key: exactly when there is a cause and its rendered text
  is not empty. With no cause, as for \<open>NewExitError(ExitCodeValidation, "invalid input", nil)\<close>,
  the record is the one without the key.
\<close>

lemma MarshalJSON_cause_key:
  "MarshalJSON e = Inr fields \<Longrightarrow>
     map_of fields ''cause'' = None
       \<longleftrightarrow> Cause e = None \<or> (\<exists>c. Cause e = Some c \<and> error_Error c = Inr [])"
  by (cases e) (auto simp: MarshalJSON_def bind_panic_def split: option.splits sum.splits if_splits)

lemma MarshalJSON_no_cause:
  "MarshalJSON (ExitError ExitCodeValidation ''invalid input'' None)
     = Inr [(''code'', JNumber 85), (''name'', JString ''Validation error''),
            (''category'', JString ''cli_extended''), (''message'', JString ''invalid input'')]"
  by (simp add: MarshalJSON_def bind_panic_def ExitCode_String_def Category_def Category_defs
        ExitCode_defs word_sle_eq)

lemma factory_result_NewExitError:
  assumes "error_Error s = Inr t" "t \<noteq> []"
  shows "factory_result (NewExitError code message (Some s)) s"
proof -
  have "ExitError_Error (ExitError code message (Some s)) = Inr (if message \<noteq> [] then message else t)"
    using assms(1) by simp
  moreover have "s \<in> set (chain s)"
    by (subst hd_chain) simp
  ultimately show ?thesis using assms
    by (simp add: factory_result_def NewExitError_def errors_Is_def is_target_def
          MarshalJSON_def bind_panic_def)
qed

text \<open>
  C10. Each convenience factory returns an ExitError whose cause is its sentinel, for
  every message: the sentinel is in the chain of the result, \<open>errors.Is\<close> finds it, and
  the structured record of the result has the key \<open>cause\<close>.
\<close>

theorem C10_factories_carry_sentinel:
  "factory_result (UsageError m) ErrUsage
   \<and> factory_result (ValidationError m) ErrValidation
   \<and> factory_result (ConfigError m) ErrConfig
   \<and> factory_result (NotFoundError m) ErrNotFound
   \<and> factory_result (PermissionError m) ErrNoPermission
   \<and> factory_result (AuthError m) ErrAuth
   \<and> factory_result (TempFailError m) ErrTempFail"
  by (simp add: UsageError_def ValidationError_def ConfigError_def NotFoundError_def
        PermissionError_def AuthError_def TempFailError_def factory_result_NewExitError)

section \<open>The tests of the repository, on the model\<close>

text \<open>
  The tables of \<open>TestResolveExitCode\<close>, \<open>TestResolveExitCode_ExitError\<close>,
  \<open>TestResolveExitCode_Mappings\<close> (with \<open>dummyNetError{timeout}\<close> as
  \<open>NetError ''dummy'' timeout (\<not> timeout)\<close>), \<open>TestHelperFunctions\<close>,
  \<open>TestExitCode_UnmarshalText\<close> and \<open>TestExitError_JSONMarshaling\<close> give on the
  model what the tests expect of the code.
\<close>

lemma TestResolveExitCode:
  "map ResolveExitCode
     [None, Some ErrInternal, Some ErrInvalid, Some ErrUsage, Some ErrDataFormat,
      Some ErrNotFound, Some ErrNoPermission, Some ErrConfig, Some ErrAuth, Some ErrForbidden,
      Some ErrValidation, Some ErrIO, Some ErrUnavailable, Some ErrTempFail,
      Some (ErrorString ''unknown'')]
   = map Inr
     [ExitCodeSuccess, ExitCodeErrorInternal, ExitCodeInvalidArgument, ExitCodeUsageError,
      ExitCodeDataError, ExitCodeNotFound, ExitCodeNoPermission, ExitCodeConfig,
      ExitCodeAuthFailed, ExitCodeForbidden, ExitCodeValidation, ExitCodeIOError,
      ExitCodeUnavailable, ExitCodeTempFail, ExitCodeErrorInternal]"
  by code_simp

lemma TestResolveExitCode_ExitError:
  "ResolveExitCode (as_error (NewExitError ExitCodeValidation ''validation failed'' None))
     = Inr ExitCodeValidation"
  "ResolveExitCode (Some (ErrorString ''wrapped: validation failed'')) = Inr ExitCodeErrorInternal"
  by code_simp+

lemma TestResolveExitCode_Mappings:
  "ResolveExitCode (Some Canceled) = Inr ExitCodeInterrupted"
  "ResolveExitCode (Some DeadlineExceeded) = Inr ExitCodeTempFail"
  "ResolveExitCode (Some (NetError ''dummy'' True False)) = Inr ExitCodeTempFail"
  "ResolveExitCode (Some (NetError ''dummy'' False True)) = Inr ExitCodeTempFail"
  by code_simp+

lemma TestHelperFunctions:
  "error_Error (ExitErrorPtr (UsageError ''invalid command'')) = Inr ''invalid command''"
  "error_Error (ExitErrorPtr (NotFoundError ''config file'')) = Inr ''config file not found''"
  "error_Error (ExitErrorPtr (PermissionError ''write file'')) = Inr ''permission denied: write file''"
  by code_simp+

lemma TestExitCode_UnmarshalText:
  "UnmarshalText c [CHR 0x20, CHR 0x20, CHR 0x20, CHR 0x09, CHR 0x20, CHR 0x20, CHR 0x20]
     = (ExitCodeSuccess, None)"
  "UnmarshalText c [CHR 0x20, CHR ''8'', CHR ''5'', CHR 0x20, CHR 0x0A] = (ExitCodeValidation, None)"
  "snd (UnmarshalText c ''abc'') \<noteq> None"
  by (simp_all add: UnmarshalText_def TrimSpace_def TrimLeft.simps TrimRight.simps
        leading_space_def trailing_space_def asciiSpace_def space2_def space3_def
        Atoi_def is_digit_def digits_value_def ExitCode_defs)

lemma TestExitError_JSONMarshaling:
  "MarshalJSON (ExitError ExitCodeValidation ''invalid input'' (Some (ErrorString ''root cause'')))
     = Inr [(''code'', JNumber 85), (''name'', JString ''Validation error''),
            (''category'', JString ''cli_extended''), (''message'', JString ''invalid input''),
            (''cause'', JString ''root cause'')]"
  by code_simp


end
